theory Spec2Isabelle
  imports Main "HOL-Library.AList" "HOL-Library.Multiset" "HOL-Library.Option_ord"
begin

section \<open>JavaScript values, objects and documents\<close>

text \<open>
  The values that travel through the server: what \<open>express.json()\<close> parses from a request
  body, what Mongoose stores in a document and what \<open>res.json\<close> is handed. Numbers are the
  integer-valued ones (\<open>Date.now()\<close> returns such a number); a \<open>Date\<close> is its
  millisecond timestamp. \<open>undefined\<close> is the absence of a property, so a property read
  returns an option.
\<close>

datatype jsvalue =
    JNull
  | JBool bool
  | JNum int
  | JStr string
  | JDate int
  | JArr "jsvalue list"
  | JObj "(string \<times> jsvalue) list"

text \<open>
  An object is an association list read with \<open>map_of\<close>: the first binding of a key is the
  property. The spread \<open>{ ...base, ...src }\<close> lets the properties of \<open>src\<close> override
  those of \<open>base\<close>.
\<close>

type_synonym obj = "(string \<times> jsvalue) list"
type_synonym doc = "(string \<times> jsvalue) list"

definition spread :: "obj \<Rightarrow> obj \<Rightarrow> obj" where
  "spread base src = AList.merge base src"

section \<open>Schemas (models/Project.js, models/Blog.js, models/Settings.js)\<close>

datatype ftype = TNumber | TString | TDate | TStrings

datatype fdefault = NoDefault | Default jsvalue | DefaultDateNow

datatype path = Path (pname: string) (ptype: ftype) (required: bool) (dflt: fdefault)

type_synonym schema = "path list"

definition ProjectSchema :: schema where
  "ProjectSchema =
    [Path ''id'' TNumber True NoDefault,
     Path ''title'' TString True NoDefault,
     Path ''category'' TString False (Default (JStr ''web'')),
     Path ''img'' TString False NoDefault,
     Path ''desc'' TString False NoDefault,
     Path ''link'' TString False NoDefault]"

definition BlogSchema :: schema where
  "BlogSchema =
    [Path ''id'' TNumber True NoDefault,
     Path ''title'' TString True NoDefault,
     Path ''content'' TString True NoDefault,
     Path ''img'' TString False NoDefault,
     Path ''tags'' TStrings False (Default (JArr [])),
     Path ''link'' TString False NoDefault,
     Path ''date'' TDate False DefaultDateNow]"

definition SettingsSchema :: schema where
  "SettingsSchema =
    [Path ''name'' TString False (Default (JStr ''Vaibhav Kumar'')),
     Path ''bio'' TString False NoDefault,
     Path ''email'' TString False NoDefault,
     Path ''phone'' TString False NoDefault,
     Path ''address'' TString False NoDefault]"

text \<open>
  models/Contact.js is not among the sources: the Contact schema is a parameter \<open>cs\<close> of
  every function that uses the Contact model.
\<close>

section \<open>The process environment and the outside world\<close>

text \<open>
  What one run of a handler reads from outside the program: the two environment variables,
  the clock (\<open>Date.now()\<close> in the handler, \<open>Date.now\<close> as a schema default,
  \<open>new Date()\<close> in the notifier), whether the \<open>k\<close>-th call to the store made by this
  run is rejected by the store, the result of the webhook POST, and Mongoose's conversion
  of a value whose type is not the path's type (\<open>None\<close> is a CastError).
\<close>

datatype delivery = NetworkError | HttpStatus nat

record env =
  ADMIN_PASSWORD :: "string option"
  DISCORD_WEBHOOK_URL :: "string option"
  Date_now :: int
  schema_Date_now :: int
  new_Date :: int
  store_fault :: "nat \<Rightarrow> bool"
  axios_post :: delivery
  coerce :: "ftype \<Rightarrow> jsvalue \<Rightarrow> jsvalue option"

datatype logline = ConsoleLog string | ConsoleError string

record world =
  Settings :: "doc list"
  Project :: "doc list"
  Blog :: "doc list"
  Contact :: "doc list"
  console :: "logline list"
  outbox :: "(string \<times> jsvalue) list"

record request =
  headers :: "(string \<times> string) list"
  params_id :: string
  body :: obj

record response =
  status :: nat
  payload :: jsvalue

definition json :: "nat \<Rightarrow> jsvalue \<Rightarrow> response" where
  "json code v = \<lparr>status = code, payload = v\<rparr>"

datatype fault = StoreFault | ValidationError | CastError

section \<open>Mongoose: casting, documents, queries\<close>

text \<open>
  The store's own bookkeeping fields (\<open>_id\<close>, \<open>__v\<close>) are not modelled, and neither are
  update operators: an update document is a plain set of fields (\<open>plain_fields\<close>).
  A rejected store call leaves the collection as it was.
\<close>

fun is_str :: "jsvalue \<Rightarrow> bool" where
  "is_str (JStr s) = True"
| "is_str _ = False"

fun has_type :: "ftype \<Rightarrow> jsvalue \<Rightarrow> bool" where
  "has_type TNumber (JNum n) = True"
| "has_type TString (JStr s) = True"
| "has_type TDate (JDate t) = True"
| "has_type TStrings (JArr vs) = list_all is_str vs"
| "has_type _ _ = False"

definition cast :: "env \<Rightarrow> ftype \<Rightarrow> jsvalue \<Rightarrow> jsvalue option" where
  "cast e T v =
     (if v = JNull then Some JNull
      else if has_type T v then Some v
      else coerce e T v)"

text \<open>
  \<open>new Model(src)\<close> followed by validation, path by path: a property the schema does not
  declare is dropped (strict mode), an absent one takes the default, a present one is cast;
  a required path must end up with a value (and a required string must not be empty).
\<close>

definition default_value :: "env \<Rightarrow> path \<Rightarrow> jsvalue option" where
  "default_value e p =
     (case dflt p of
        NoDefault \<Rightarrow> None
      | Default v \<Rightarrow> Some v
      | DefaultDateNow \<Rightarrow> Some (JDate (schema_Date_now e)))"

definition init_path :: "env \<Rightarrow> obj \<Rightarrow> path \<Rightarrow> fault + doc" where
  "init_path e src p =
     (case map_of src (pname p) of
        None \<Rightarrow>
          (case default_value e p of
             None \<Rightarrow> if required p then Inl ValidationError else Inr []
           | Some v \<Rightarrow> Inr [(pname p, v)])
      | Some v \<Rightarrow>
          (case cast e (ptype p) v of
             None \<Rightarrow> Inl ValidationError
           | Some v' \<Rightarrow>
               if required p \<and> (v' = JNull \<or> v' = JStr []) then Inl ValidationError
               else Inr [(pname p, v')]))"

fun new_doc :: "env \<Rightarrow> schema \<Rightarrow> obj \<Rightarrow> fault + doc" where
  "new_doc e [] src = Inr []"
| "new_doc e (p # ps) src =
     (case init_path e src p of
        Inl err \<Rightarrow> Inl err
      | Inr f \<Rightarrow>
          (case new_doc e ps src of
             Inl err \<Rightarrow> Inl err
           | Inr d \<Rightarrow> Inr (f @ d)))"

text \<open>\<open>Model.create(src)\<close>, as the \<open>k\<close>-th store call of the run.\<close>

definition create :: "env \<Rightarrow> nat \<Rightarrow> schema \<Rightarrow> obj \<Rightarrow> doc list \<Rightarrow> fault + (doc \<times> doc list)" where
  "create e k sch src coll =
     (case new_doc e sch src of
        Inl err \<Rightarrow> Inl err
      | Inr d \<Rightarrow> if store_fault e k then Inl StoreFault else Inr (d, coll @ [d]))"

definition countDocuments :: "env \<Rightarrow> nat \<Rightarrow> doc list \<Rightarrow> fault + nat" where
  "countDocuments e k coll = (if store_fault e k then Inl StoreFault else Inr (length coll))"

text \<open>
  A query answers Mongoose documents, not the stored records: when a stored record is
  loaded, every schema path it has no value for takes the path's default (\<open>tags\<close> is
  \<open>[]\<close>, \<open>date\<close> is \<open>Date.now\<close> at the time of the read, \<open>category\<close> is \<open>web\<close>,
  \<open>name\<close> is the default name); what the record holds, \<open>null\<close> included, is answered
  as stored. The store is not written. An array path is declared with its default
  (Mongoose gives an array path the default \<open>[]\<close> when none is written).
\<close>

fun defaults_of :: "env \<Rightarrow> schema \<Rightarrow> obj \<Rightarrow> doc" where
  "defaults_of e [] s = []"
| "defaults_of e (p # ps) s =
     (case (map_of s (pname p), default_value e p) of
        (None, Some v) \<Rightarrow> (pname p, v) # defaults_of e ps s
      | _ \<Rightarrow> defaults_of e ps s)"

definition hydrate :: "env \<Rightarrow> schema \<Rightarrow> doc \<Rightarrow> doc" where
  "hydrate e sch d = d @ defaults_of e sch d"

definition find_docs :: "env \<Rightarrow> nat \<Rightarrow> schema \<Rightarrow> doc list \<Rightarrow> fault + doc list" where
  "find_docs e k sch coll =
     (if store_fault e k then Inl StoreFault else Inr (map (hydrate e sch) coll))"

definition findOne :: "env \<Rightarrow> nat \<Rightarrow> schema \<Rightarrow> doc list \<Rightarrow> fault + jsvalue" where
  "findOne e k sch coll =
     (if store_fault e k then Inl StoreFault
      else Inr (case coll of [] \<Rightarrow> JNull | d # _ \<Rightarrow> JObj (hydrate e sch d)))"

text \<open>
  \<open>.sort({ date: -1 })\<close> is done by the store, on the stored records: descending by the
  stored \<open>date\<close> field, a record without a date after the dated ones (\<open>None\<close> is the
  least key). MongoDB leaves the order of records with equal dates open; here they stay in
  stored order. The sorted records are then loaded.
\<close>

definition date_of :: "doc \<Rightarrow> int option" where
  "date_of d = (case map_of d ''date'' of Some (JDate t) \<Rightarrow> Some t | _ \<Rightarrow> None)"

fun insert_desc :: "doc \<Rightarrow> doc list \<Rightarrow> doc list" where
  "insert_desc x [] = [x]"
| "insert_desc x (y # ys) =
     (if date_of y > date_of x then y # insert_desc x ys else x # y # ys)"

definition sort_date_desc :: "doc list \<Rightarrow> doc list" where
  "sort_date_desc ds = foldr insert_desc ds []"


definition find_sorted :: "env \<Rightarrow> nat \<Rightarrow> schema \<Rightarrow> doc list \<Rightarrow> fault + doc list" where
  "find_sorted e k sch coll =
     (if store_fault e k then Inl StoreFault
      else Inr (map (hydrate e sch) (sort_date_desc coll)))"

text \<open>
  A filter \<open>{ id: v }\<close> is cast by the schema (\<open>id\<close> is a Number path in both schemas that
  are queried by id); \<open>{ id: null }\<close> also matches a document without an id.
\<close>

definition matches_id :: "jsvalue \<Rightarrow> doc \<Rightarrow> bool" where
  "matches_id q d =
     (case map_of d ''id'' of
        None \<Rightarrow> q = JNull
      | Some v \<Rightarrow> v = q)"

fun remove_first :: "('a \<Rightarrow> bool) \<Rightarrow> 'a list \<Rightarrow> 'a list" where
  "remove_first P [] = []"
| "remove_first P (x # xs) = (if P x then xs else x # remove_first P xs)"

fun update_first :: "('a \<Rightarrow> bool) \<Rightarrow> ('a \<Rightarrow> 'a) \<Rightarrow> 'a list \<Rightarrow> 'a list" where
  "update_first P f [] = []"
| "update_first P f (x # xs) = (if P x then f x # xs else x # update_first P f xs)"

definition findOneAndDelete :: "env \<Rightarrow> nat \<Rightarrow> jsvalue \<Rightarrow> doc list \<Rightarrow> fault + doc list" where
  "findOneAndDelete e k idv coll =
     (case cast e TNumber idv of
        None \<Rightarrow> Inl CastError
      | Some q \<Rightarrow>
          if store_fault e k then Inl StoreFault
          else Inr (remove_first (matches_id q) coll))"

text \<open>
  An update document without operators is applied as \<open>$set\<close>: each field the schema
  declares is cast and set, the others are dropped.
\<close>

definition plain_fields :: "obj \<Rightarrow> bool" where
  "plain_fields b = list_all (\<lambda>(k, v). take 1 k \<noteq> ''$'') b"

fun cast_update :: "env \<Rightarrow> schema \<Rightarrow> obj \<Rightarrow> fault + obj" where
  "cast_update e [] upd = Inr []"
| "cast_update e (p # ps) upd =
     (case cast_update e ps upd of
        Inl err \<Rightarrow> Inl err
      | Inr rest \<Rightarrow>
          (case map_of upd (pname p) of
             None \<Rightarrow> Inr rest
           | Some v \<Rightarrow>
               (case cast e (ptype p) v of
                  None \<Rightarrow> Inl CastError
                | Some v' \<Rightarrow> Inr ((pname p, v') # rest))))"

definition findOneAndUpdate ::
  "env \<Rightarrow> nat \<Rightarrow> schema \<Rightarrow> jsvalue \<Rightarrow> obj \<Rightarrow> doc list \<Rightarrow> fault + doc list" where
  "findOneAndUpdate e k sch idv upd coll =
     (case cast e TNumber idv of
        None \<Rightarrow> Inl CastError
      | Some q \<Rightarrow>
          (case cast_update e sch upd of
             Inl err \<Rightarrow> Inl err
           | Inr s \<Rightarrow>
               if store_fault e k then Inl StoreFault
               else Inr (update_first (matches_id q) (\<lambda>d. spread d s) coll)))"

text \<open>
  \<open>findOneAndUpdate({}, upd, { new: true, upsert: true })\<close>: the empty filter matches the
  first record; without one, a record is inserted from the update and the schema
  defaults. The result is the updated (or inserted) record, loaded, next to the collection
  as stored.
\<close>

definition findOneAndUpsert ::
  "env \<Rightarrow> nat \<Rightarrow> schema \<Rightarrow> obj \<Rightarrow> doc list \<Rightarrow> fault + (doc \<times> doc list)" where
  "findOneAndUpsert e k sch upd coll =
     (case cast_update e sch upd of
        Inl err \<Rightarrow> Inl err
      | Inr s \<Rightarrow>
          if store_fault e k then Inl StoreFault
          else
            (case coll of
               [] \<Rightarrow> (let d = spread (defaults_of e sch s) s in Inr (hydrate e sch d, [d]))
             | d # ds \<Rightarrow> (let d' = spread d s in Inr (hydrate e sch d', d' # ds))))"

section \<open>The server\<close>

text \<open>
  The model starts where a request reaches the routing table: the middleware installed
  before the routes (helmet, CORS, the JSON body parser with its 10kb limit, the rate
  limiter) has let the request through and \<open>req.body\<close> is the parsed object. A handler
  takes the environment of the run, the request and the world, and returns the response
  and the world after it.
\<close>

subsection \<open>Initial data seeding\<close>

definition seed_settings :: obj where
  "seed_settings =
    [(''name'', JStr ''Vaibhav Kumar''),
     (''bio'', JStr ''Frontend Developer crafting high-performance, visually stunning web experiences.''),
     (''email'', JStr ''vaibhavsharma993@gmail.com''),
     (''address'', JStr ''Ghaziabad, India'')]"

definition seedDatabase :: "env \<Rightarrow> world \<Rightarrow> world" where
  "seedDatabase e w =
     (case countDocuments e 0 (Settings w) of
        Inl err \<Rightarrow> w\<lparr>console := console w @ [ConsoleError ''Seeding Error:'']\<rparr>
      | Inr cnt \<Rightarrow>
          if cnt = 0 then
            (case create e 1 SettingsSchema seed_settings (Settings w) of
               Inl err \<Rightarrow> w\<lparr>console := console w @ [ConsoleError ''Seeding Error:'']\<rparr>
             | Inr (d, coll) \<Rightarrow>
                 w\<lparr>Settings := coll,
                   console := console w @ [ConsoleLog ''Database seeded with default settings'']\<rparr>)
          else w)"

subsection \<open>Auth middleware\<close>

text \<open>
  A middleware either calls \<open>next()\<close> or sends the response itself; the handler registered
  after it runs only in the first case.
\<close>

datatype step = Next | Respond response

definition auth :: "env \<Rightarrow> request \<Rightarrow> step" where
  "auth e req =
     (let password = map_of (headers req) ''password'' in
      if password = ADMIN_PASSWORD e then Next
      else Respond (json 401 (JObj [(''message'', JStr ''Unauthorized'')])))"

type_synonym handler = "env \<Rightarrow> request \<Rightarrow> world \<Rightarrow> response \<times> world"

definition guarded :: "(env \<Rightarrow> request \<Rightarrow> step) \<Rightarrow> handler \<Rightarrow> handler" where
  "guarded mw h e req w =
     (case mw e req of
        Next \<Rightarrow> h e req w
      | Respond r \<Rightarrow> (r, w))"

subsection \<open>API endpoints\<close>

definition message :: "string \<Rightarrow> jsvalue" where
  "message m = JObj [(''message'', JStr m)]"

definition get_data :: handler where
  "get_data e req w =
     (case findOne e 0 SettingsSchema (Settings w) of
        Inl err \<Rightarrow> (json 500 (message ''Server Error''), w\<lparr>console := console w @ [ConsoleError []]\<rparr>)
      | Inr settings \<Rightarrow>
     (case find_docs e 1 ProjectSchema (Project w) of
        Inl err \<Rightarrow> (json 500 (message ''Server Error''), w\<lparr>console := console w @ [ConsoleError []]\<rparr>)
      | Inr projects \<Rightarrow>
     (case find_sorted e 2 BlogSchema (Blog w) of
        Inl err \<Rightarrow> (json 500 (message ''Server Error''), w\<lparr>console := console w @ [ConsoleError []]\<rparr>)
      | Inr blogs \<Rightarrow>
          (json 200 (JObj [(''settings'', settings),
                           (''projects'', JArr (map JObj projects)),
                           (''blogs'', JArr (map JObj blogs))]), w))))"

definition put_settings :: handler where
  "put_settings e req w =
     (case findOneAndUpsert e 0 SettingsSchema (body req) (Settings w) of
        Inr (settings, coll) \<Rightarrow>
          (json 200 (JObj [(''message'', JStr ''Settings updated''), (''settings'', JObj settings)]),
           w\<lparr>Settings := coll\<rparr>)
      | Inl err \<Rightarrow> (json 500 (message ''Error updating settings''), w))"

definition post_projects :: handler where
  "post_projects e req w =
     (case create e 0 ProjectSchema (spread [(''id'', JNum (Date_now e))] (body req)) (Project w) of
        Inr (newProject, coll) \<Rightarrow>
          (json 200 (JObj [(''message'', JStr ''Project added''), (''project'', JObj newProject)]),
           w\<lparr>Project := coll\<rparr>)
      | Inl err \<Rightarrow> (json 500 (message ''Error adding project''), w))"

definition put_project :: handler where
  "put_project e req w =
     (case findOneAndUpdate e 0 ProjectSchema (JStr (params_id req)) (body req) (Project w) of
        Inr coll \<Rightarrow> (json 200 (message ''Project updated''), w\<lparr>Project := coll\<rparr>)
      | Inl err \<Rightarrow> (json 500 (message ''Error updating project''), w))"

definition delete_project :: handler where
  "delete_project e req w =
     (case findOneAndDelete e 0 (JStr (params_id req)) (Project w) of
        Inr coll \<Rightarrow> (json 200 (message ''Project deleted''), w\<lparr>Project := coll\<rparr>)
      | Inl err \<Rightarrow> (json 500 (message ''Error deleting project''), w))"

definition get_blogs :: handler where
  "get_blogs e req w =
     (case find_sorted e 0 BlogSchema (Blog w) of
        Inr blogs \<Rightarrow> (json 200 (JArr (map JObj blogs)), w)
      | Inl err \<Rightarrow> (json 500 (message ''Error fetching blogs''), w))"

definition post_blogs :: handler where
  "post_blogs e req w =
     (case create e 0 BlogSchema (spread [(''id'', JNum (Date_now e))] (body req)) (Blog w) of
        Inr (newBlog, coll) \<Rightarrow>
          (json 200 (JObj [(''message'', JStr ''Blog posted''), (''blog'', JObj newBlog)]),
           w\<lparr>Blog := coll\<rparr>)
      | Inl err \<Rightarrow> (json 500 (message ''Error adding blog''), w))"

definition delete_blog :: handler where
  "delete_blog e req w =
     (case findOneAndDelete e 0 (JStr (params_id req)) (Blog w) of
        Inr coll \<Rightarrow> (json 200 (message ''Blog deleted''), w\<lparr>Blog := coll\<rparr>)
      | Inl err \<Rightarrow> (json 500 (message ''Error deleting blog''), w))"

subsection \<open>Contact endpoints\<close>

text \<open>
  \<open>axios.post\<close> rejects on a network error and on a status outside 200..299. A field of
  the embed whose value is \<open>undefined\<close> is left out of the JSON that is sent. The title
  starts with the four UTF-8 bytes of the rocket sign.
\<close>

definition delivered :: "delivery \<Rightarrow> bool" where
  "delivered r = (case r of NetworkError \<Rightarrow> False | HttpStatus n \<Rightarrow> 200 \<le> n \<and> n < 300)"

definition embed_field :: "string \<Rightarrow> jsvalue option \<Rightarrow> (string \<times> jsvalue) list \<Rightarrow> jsvalue" where
  "embed_field n v rest =
     JObj ((''name'', JStr n) # (case v of None \<Rightarrow> [] | Some x \<Rightarrow> [(''value'', x)]) @ rest)"

definition embed :: "env \<Rightarrow> doc \<Rightarrow> jsvalue" where
  "embed e d =
     JObj [(''embeds'', JArr [JObj
       [(''title'', JStr (CHR 0xF0 # CHR 0x9F # CHR 0x9A # CHR 0x80 # '' New Signal Received'')),
        (''color'', JNum 62463),
        (''fields'', JArr
           [embed_field ''Name'' (map_of d ''name'') [(''inline'', JBool True)],
            embed_field ''Email'' (map_of d ''email'') [(''inline'', JBool True)],
            embed_field ''Message'' (map_of d ''message'') []]),
        (''footer'', JObj [(''text'', JStr ''Portfolio System Notification'')]),
        (''timestamp'', JDate (new_Date e))]])]"

definition sendDiscordNotification :: "env \<Rightarrow> doc \<Rightarrow> world \<Rightarrow> world" where
  "sendDiscordNotification e d w =
     (case DISCORD_WEBHOOK_URL e of
        None \<Rightarrow> w
      | Some webhookUrl \<Rightarrow>
          if webhookUrl = [] then w
          else
            (let w' = w\<lparr>outbox := outbox w @ [(webhookUrl, embed e d)]\<rparr> in
             if delivered (axios_post e) then w'
             else w'\<lparr>console := console w' @ [ConsoleError ''Discord Webhook Error:'']\<rparr>))"

definition post_contact :: "schema \<Rightarrow> handler" where
  "post_contact cs e req w =
     (case create e 0 cs (spread [(''id'', JNum (Date_now e))] (body req)) (Contact w) of
        Inr (newContact, coll) \<Rightarrow>
          (json 200 (JObj [(''message'', JStr ''Message sent successfully''),
                           (''contact'', JObj newContact)]),
           sendDiscordNotification e newContact (w\<lparr>Contact := coll\<rparr>))
      | Inl err \<Rightarrow> (json 500 (message ''Error sending message''), w))"

definition get_contact :: "schema \<Rightarrow> handler" where
  "get_contact cs e req w =
     (case find_sorted e 0 cs (Contact w) of
        Inr messages \<Rightarrow> (json 200 (JArr (map JObj messages)), w)
      | Inl err \<Rightarrow> (json 500 (message ''Error fetching messages''), w))"

subsection \<open>Login\<close>

text \<open>
  \<open>password === process.env.ADMIN_PASSWORD\<close> with the password taken from the body: equal
  when both are undefined, or when the body's password is a string and it is the secret.
\<close>

definition strict_eq :: "jsvalue option \<Rightarrow> string option \<Rightarrow> bool" where
  "strict_eq v s =
     (case (v, s) of
        (None, None) \<Rightarrow> True
      | (Some (JStr x), Some y) \<Rightarrow> x = y
      | _ \<Rightarrow> False)"

definition login :: handler where
  "login e req w =
     (let password = map_of (body req) ''password'' in
      if strict_eq password (ADMIN_PASSWORD e)
      then (json 200 (JObj [(''success'', JBool True), (''token'', JStr ''admin-token'')]), w)
      else (json 401 (JObj [(''success'', JBool False), (''message'', JStr ''Invalid password'')]), w))"

subsection \<open>The routing table\<close>

datatype route =
    GET_data
  | PUT_settings
  | POST_projects
  | PUT_projects_id
  | DELETE_projects_id
  | GET_blogs
  | POST_blogs
  | DELETE_blogs_id
  | POST_contact
  | GET_contact
  | POST_login

fun app :: "schema \<Rightarrow> route \<Rightarrow> handler" where
  "app cs GET_data = get_data"
| "app cs PUT_settings = guarded auth put_settings"
| "app cs POST_projects = guarded auth post_projects"
| "app cs PUT_projects_id = guarded auth put_project"
| "app cs DELETE_projects_id = guarded auth delete_project"
| "app cs GET_blogs = get_blogs"
| "app cs POST_blogs = guarded auth post_blogs"
| "app cs DELETE_blogs_id = guarded auth delete_blog"
| "app cs POST_contact = post_contact cs"
| "app cs GET_contact = guarded auth (get_contact cs)"
| "app cs POST_login = login"

text \<open>The handler registered for a route, behind whatever middleware the route has.\<close>

fun handler_of :: "schema \<Rightarrow> route \<Rightarrow> handler" where
  "handler_of cs GET_data = get_data"
| "handler_of cs PUT_settings = put_settings"
| "handler_of cs POST_projects = post_projects"
| "handler_of cs PUT_projects_id = put_project"
| "handler_of cs DELETE_projects_id = delete_project"
| "handler_of cs GET_blogs = get_blogs"
| "handler_of cs POST_blogs = post_blogs"
| "handler_of cs DELETE_blogs_id = delete_blog"
| "handler_of cs POST_contact = post_contact cs"
| "handler_of cs GET_contact = get_contact cs"
| "handler_of cs POST_login = login"

definition protected :: "route list" where
  "protected =
    [PUT_settings, POST_projects, PUT_projects_id, DELETE_projects_id,
     POST_blogs, DELETE_blogs_id, GET_contact]"

section \<open>Sample inputs\<close>

text \<open>
  A conversion for the sample runs: a string of decimal digits becomes its number, as
  \<open>Number()\<close> makes it; nothing else is converted.
\<close>

definition digit :: "char \<Rightarrow> nat option" where
  "digit c = (let n = (of_char c :: nat) in if 48 \<le> n \<and> n \<le> 57 then Some (n - 48) else None)"

fun decimal :: "string \<Rightarrow> nat \<Rightarrow> nat option" where
  "decimal [] acc = Some acc"
| "decimal (c # cs) acc = (case digit c of None \<Rightarrow> None | Some d \<Rightarrow> decimal cs (10 * acc + d))"

definition sample_coerce :: "ftype \<Rightarrow> jsvalue \<Rightarrow> jsvalue option" where
  "sample_coerce T v =
     (case (T, v) of
        (TNumber, JStr s) \<Rightarrow>
          if s = [] then Some JNull else map_option (\<lambda>n. JNum (int n)) (decimal s 0)
      | _ \<Rightarrow> None)"

definition sample_env :: env where
  "sample_env =
    \<lparr>ADMIN_PASSWORD = Some ''hunter2'', DISCORD_WEBHOOK_URL = None,
     Date_now = 1700000000000, schema_Date_now = 1700000000001, new_Date = 1700000000002,
     store_fault = (\<lambda>k. False), axios_post = HttpStatus 204, coerce = sample_coerce\<rparr>"

definition empty_world :: world where
  "empty_world = \<lparr>Settings = [], Project = [], Blog = [], Contact = [], console = [], outbox = []\<rparr>"

definition sample_request :: "string \<Rightarrow> string \<Rightarrow> obj \<Rightarrow> request" where
  "sample_request pw i b = \<lparr>headers = [(''password'', pw)], params_id = i, body = b\<rparr>"

definition bare_request :: "obj \<Rightarrow> request" where
  "bare_request b = \<lparr>headers = [], params_id = [], body = b\<rparr>"

text \<open>
  Modelled from the spec: models/Contact.js is missing; a Contact has an id, the submitted
  name, email and message, and a date. Used for the sample runs only.
\<close>

definition sample_ContactSchema :: schema where
  "sample_ContactSchema =
    [Path ''id'' TNumber True NoDefault,
     Path ''name'' TString False NoDefault,
     Path ''email'' TString False NoDefault,
     Path ''message'' TString False NoDefault,
     Path ''date'' TDate False DefaultDateNow]"

section \<open>Objects and documents\<close>

lemma map_of_spread:
  "map_of (spread b s) k = (case map_of s k of None \<Rightarrow> map_of b k | Some v \<Rightarrow> Some v)"
  by (simp add: spread_def merge_conv' map_add_def)

lemma init_path_keys: "init_path e src p = Inr f \<Longrightarrow> k \<noteq> pname p \<Longrightarrow> map_of f k = None"
  by (auto simp: init_path_def split: option.splits if_splits)

lemma init_path_value:
  "init_path e src p = Inr f \<Longrightarrow>
     map_of f (pname p) =
       (case map_of src (pname p) of None \<Rightarrow> default_value e p | Some v \<Rightarrow> cast e (ptype p) v)"
  by (auto simp: init_path_def split: option.splits if_splits)

lemma new_doc_keys:
  "new_doc e sch src = Inr d \<Longrightarrow> k \<notin> pname ` set sch \<Longrightarrow> map_of d k = None"
proof (induction sch arbitrary: d)
  case Nil
  then show ?case by simp
next
  case (Cons p ps)
  then show ?case
    by (auto simp: map_add_def init_path_keys split: sum.splits option.splits)
qed

lemma new_doc_lookup:
  "new_doc e sch src = Inr d \<Longrightarrow> distinct (map pname sch) \<Longrightarrow> p \<in> set sch \<Longrightarrow>
     map_of d (pname p) =
       (case map_of src (pname p) of None \<Rightarrow> default_value e p | Some v \<Rightarrow> cast e (ptype p) v)"
proof (induction sch arbitrary: d)
  case Nil
  then show ?case by simp
next
  case (Cons a ps)
  from Cons.prems(1) obtain f d' where f: "init_path e src a = Inr f"
    and d': "new_doc e ps src = Inr d'" and d: "d = f @ d'"
    by (auto split: sum.splits)
  show ?case
  proof (cases "p = a")
    case True
    have "map_of d' (pname a) = None"
      using new_doc_keys[OF d'] Cons.prems(2) by auto
    then show ?thesis
      using True d init_path_value[OF f] by (simp add: map_add_def split: option.splits)
  next
    case False
    then have pin: "p \<in> set ps" using Cons.prems(3) by simp
    have "pname p \<in> pname ` set ps" using pin by (rule imageI)
    then have "pname p \<noteq> pname a" using Cons.prems(2) by auto
    then have "map_of f (pname p) = None" using init_path_keys[OF f] by simp
    then show ?thesis
      using d Cons.IH[OF d' _ pin] Cons.prems(2) by (simp add: map_add_def)
  qed
qed

lemma create_Inr:
  "create e k sch src coll = Inr (d, coll') \<longleftrightarrow>
     new_doc e sch src = Inr d \<and> \<not> store_fault e k \<and> coll' = coll @ [d]"
  by (auto simp: create_def split: sum.splits)

lemma create_fields:
  assumes c: "new_doc e sch (spread [(''id'', JNum t)] b) = Inr d"
    and dist: "distinct (map pname sch)" and p: "p \<in> set sch"
  shows "pname p = ''id'' \<Longrightarrow> ptype p = TNumber \<Longrightarrow> map_of b ''id'' = None \<Longrightarrow>
           map_of d ''id'' = Some (JNum t)"
    and "map_of b (pname p) = Some v \<Longrightarrow> map_of d (pname p) = cast e (ptype p) v"
    and "pname p \<noteq> ''id'' \<Longrightarrow> map_of b (pname p) = None \<Longrightarrow>
           map_of d (pname p) = default_value e p"
  using new_doc_lookup[OF c dist p]
  by (auto simp: map_of_spread cast_def)

lemma status_json: "status (json c v) = c"
  by (simp add: json_def)

lemma distinct_schemas:
  "distinct (map pname ProjectSchema)" "distinct (map pname BlogSchema)"
  "distinct (map pname SettingsSchema)"
  by (simp_all add: ProjectSchema_def BlogSchema_def SettingsSchema_def)

lemma id_paths:
  "Path ''id'' TNumber True NoDefault \<in> set ProjectSchema"
  "Path ''id'' TNumber True NoDefault \<in> set BlogSchema"
  by (simp_all add: ProjectSchema_def BlogSchema_def)

lemma post_projects_ok:
  assumes "status (fst (post_projects e req w)) = 200"
  obtains d where
    "new_doc e ProjectSchema (spread [(''id'', JNum (Date_now e))] (body req)) = Inr d"
    "post_projects e req w =
       (json 200 (JObj [(''message'', JStr ''Project added''), (''project'', JObj d)]),
        w\<lparr>Project := Project w @ [d]\<rparr>)"
  using assms
  by (auto simp: post_projects_def create_def status_json split: sum.splits if_splits)

lemma post_blogs_ok:
  assumes "status (fst (post_blogs e req w)) = 200"
  obtains d where
    "new_doc e BlogSchema (spread [(''id'', JNum (Date_now e))] (body req)) = Inr d"
    "post_blogs e req w =
       (json 200 (JObj [(''message'', JStr ''Blog posted''), (''blog'', JObj d)]),
        w\<lparr>Blog := Blog w @ [d]\<rparr>)"
  using assms
  by (auto simp: post_blogs_def create_def status_json split: sum.splits if_splits)

lemma sendDiscordNotification_store:
  "Settings (sendDiscordNotification e d w) = Settings w"
  "Project (sendDiscordNotification e d w) = Project w"
  "Blog (sendDiscordNotification e d w) = Blog w"
  "Contact (sendDiscordNotification e d w) = Contact w"
  by (simp_all add: sendDiscordNotification_def Let_def split: option.splits)

lemma post_contact_ok:
  assumes "status (fst (post_contact cs e req w)) = 200"
  obtains d where
    "new_doc e cs (spread [(''id'', JNum (Date_now e))] (body req)) = Inr d"
    "post_contact cs e req w =
       (json 200 (JObj [(''message'', JStr ''Message sent successfully''), (''contact'', JObj d)]),
        sendDiscordNotification e d (w\<lparr>Contact := Contact w @ [d]\<rparr>))"
  using assms
  by (auto simp: post_contact_def create_def status_json split: sum.splits if_splits)

text \<open>The definitions a sample run unfolds.\<close>

lemmas run_defs =
  guarded_def auth_def post_projects_def post_blogs_def post_contact_def create_def init_path_def
  default_value_def cast_def map_of_spread json_def message_def
  ProjectSchema_def BlogSchema_def SettingsSchema_def sample_ContactSchema_def
  sample_env_def sample_request_def bare_request_def empty_world_def
  sendDiscordNotification_def delivered_def
  delete_project_def delete_blog_def put_project_def findOneAndDelete_def findOneAndUpdate_def
  matches_id_def sample_coerce_def digit_def plain_fields_def
  get_blogs_def get_contact_def find_sorted_def sort_date_desc_def date_of_def
  put_settings_def findOneAndUpsert_def hydrate_def Let_def

section \<open>The authorization gate\<close>

lemma auth_Next: "auth e req = Next \<longleftrightarrow> map_of (headers req) ''password'' = ADMIN_PASSWORD e"
  by (simp add: auth_def)

lemma guarded_auth:
  "guarded auth h e req w =
     (if map_of (headers req) ''password'' = ADMIN_PASSWORD e then h e req w
      else (json 401 (JObj [(''message'', JStr ''Unauthorized'')]), w))"
  by (simp add: guarded_def auth_def)

text \<open>
  C1. On every protected route the gate calls \<open>next()\<close> exactly when the \<open>password\<close> header
  is strictly equal to \<open>process.env.ADMIN_PASSWORD\<close>; then the route does what its handler
  does. Otherwise the response is 401 with the message \<open>Unauthorized\<close> and the store (the
  whole world) is left as it was.
\<close>

theorem auth_gate:
  assumes "r \<in> set protected"
  shows "(auth e req = Next \<longleftrightarrow> map_of (headers req) ''password'' = ADMIN_PASSWORD e)
       \<and> (map_of (headers req) ''password'' = ADMIN_PASSWORD e \<longrightarrow>
            app cs r e req w = handler_of cs r e req w)
       \<and> (map_of (headers req) ''password'' \<noteq> ADMIN_PASSWORD e \<longrightarrow>
            app cs r e req w = (json 401 (JObj [(''message'', JStr ''Unauthorized'')]), w))"
proof -
  have "app cs r = guarded auth (handler_of cs r)"
    using assms by (auto simp: protected_def)
  then show ?thesis
    by (simp add: guarded_auth auth_Next)
qed

theorem auth_gate_witness:
  "DELETE_projects_id \<in> set protected
   \<and> auth sample_env (sample_request ''guess'' ''7'' []) \<noteq> Next
   \<and> app sample_ContactSchema DELETE_projects_id sample_env (sample_request ''guess'' ''7'' [])
         (empty_world\<lparr>Project := [[(''id'', JNum 7)]]\<rparr>)
       = (json 401 (JObj [(''message'', JStr ''Unauthorized'')]),
          empty_world\<lparr>Project := [[(''id'', JNum 7)]]\<rparr>)
   \<and> auth sample_env (sample_request ''hunter2'' ''7'' []) = Next"
  using auth_gate [of DELETE_projects_id sample_env "sample_request ''guess'' ''7'' []"
      sample_ContactSchema "empty_world\<lparr>Project := [[(''id'', JNum 7)]]\<rparr>"]
    auth_gate [of DELETE_projects_id sample_env "sample_request ''hunter2'' ''7'' []"]
  by (simp add: protected_def sample_env_def sample_request_def)

text \<open>
  C2. When \<open>ADMIN_PASSWORD\<close> is unset, a request without a \<open>password\<close> header passes the
  gate (both sides of the comparison are undefined), so every protected route runs its
  handler; and a login whose body has no \<open>password\<close> is answered with the admin token.
\<close>

theorem unset_secret_admits_everyone:
  assumes "ADMIN_PASSWORD e = None"
  shows "(map_of (headers req) ''password'' = None \<longrightarrow>
            auth e req = Next \<and> (\<forall>r \<in> set protected. app cs r e req w = handler_of cs r e req w))
       \<and> (map_of (body req) ''password'' = None \<longrightarrow>
            app cs POST_login e req w =
              (json 200 (JObj [(''success'', JBool True), (''token'', JStr ''admin-token'')]), w))"
  using assms by (auto simp: protected_def guarded_auth auth_Next login_def strict_eq_def)

theorem unset_secret_admits_everyone_witness:
  "ADMIN_PASSWORD (sample_env\<lparr>ADMIN_PASSWORD := None\<rparr>) = None
   \<and> auth (sample_env\<lparr>ADMIN_PASSWORD := None\<rparr>) (bare_request []) = Next
   \<and> app sample_ContactSchema DELETE_projects_id (sample_env\<lparr>ADMIN_PASSWORD := None\<rparr>)
        (bare_request []) empty_world
       = delete_project (sample_env\<lparr>ADMIN_PASSWORD := None\<rparr>) (bare_request []) empty_world
   \<and> app sample_ContactSchema POST_login (sample_env\<lparr>ADMIN_PASSWORD := None\<rparr>)
        (bare_request []) empty_world
       = (json 200 (JObj [(''success'', JBool True), (''token'', JStr ''admin-token'')]), empty_world)"
  using unset_secret_admits_everyone [of "sample_env\<lparr>ADMIN_PASSWORD := None\<rparr>" "bare_request []"
      sample_ContactSchema empty_world]
  by (simp add: protected_def sample_env_def bare_request_def)

section \<open>Creating records\<close>

text \<open>
  C3 (as amended). A create of a Project, Blog or Contact that succeeds stores one new
  record and returns it. When the body carries no \<open>id\<close>, the record's id is the
  \<open>Date.now()\<close> reading of the request (the body is spread after the id, so an id in the
  body takes its place); every schema field the body supplies is stored as cast to the
  field's type; every other schema field takes its default (\<open>category\<close> is \<open>web\<close>,
  \<open>tags\<close> is empty, \<open>date\<close> is the schema's \<open>Date.now\<close>) or is absent. For Contact
  the schema is any list of distinctly named paths, and the id is the reading when the
  schema declares \<open>id\<close> as a Number.
\<close>

theorem create_stores_record:
  "(status (fst (post_projects e req w)) = 200 \<longrightarrow>
      (\<exists>d. post_projects e req w =
              (json 200 (JObj [(''message'', JStr ''Project added''), (''project'', JObj d)]),
               w\<lparr>Project := Project w @ [d]\<rparr>)
          \<and> (map_of (body req) ''id'' = None \<longrightarrow> map_of d ''id'' = Some (JNum (Date_now e)))
          \<and> (\<forall>p \<in> set ProjectSchema. \<forall>v. map_of (body req) (pname p) = Some v \<longrightarrow>
                map_of d (pname p) = cast e (ptype p) v)
          \<and> (\<forall>p \<in> set ProjectSchema. pname p \<noteq> ''id'' \<and> map_of (body req) (pname p) = None \<longrightarrow>
                map_of d (pname p) = default_value e p)))
 \<and> (status (fst (post_blogs e req w)) = 200 \<longrightarrow>
      (\<exists>d. post_blogs e req w =
              (json 200 (JObj [(''message'', JStr ''Blog posted''), (''blog'', JObj d)]),
               w\<lparr>Blog := Blog w @ [d]\<rparr>)
          \<and> (map_of (body req) ''id'' = None \<longrightarrow> map_of d ''id'' = Some (JNum (Date_now e)))
          \<and> (\<forall>p \<in> set BlogSchema. \<forall>v. map_of (body req) (pname p) = Some v \<longrightarrow>
                map_of d (pname p) = cast e (ptype p) v)
          \<and> (\<forall>p \<in> set BlogSchema. pname p \<noteq> ''id'' \<and> map_of (body req) (pname p) = None \<longrightarrow>
                map_of d (pname p) = default_value e p)))
 \<and> (distinct (map pname cs) \<and> status (fst (post_contact cs e req w)) = 200 \<longrightarrow>
      (\<exists>d. fst (post_contact cs e req w) =
              json 200 (JObj [(''message'', JStr ''Message sent successfully''), (''contact'', JObj d)])
          \<and> Contact (snd (post_contact cs e req w)) = Contact w @ [d]
          \<and> (map_of (body req) ''id'' = None \<and> (\<exists>p \<in> set cs. pname p = ''id'' \<and> ptype p = TNumber) \<longrightarrow>
                map_of d ''id'' = Some (JNum (Date_now e)))
          \<and> (\<forall>p \<in> set cs. \<forall>v. map_of (body req) (pname p) = Some v \<longrightarrow>
                map_of d (pname p) = cast e (ptype p) v)
          \<and> (\<forall>p \<in> set cs. pname p \<noteq> ''id'' \<and> map_of (body req) (pname p) = None \<longrightarrow>
                map_of d (pname p) = default_value e p)))"
proof (intro conjI impI)
  assume "status (fst (post_projects e req w)) = 200"
  then obtain d where
    d: "new_doc e ProjectSchema (spread [(''id'', JNum (Date_now e))] (body req)) = Inr d"
    and r: "post_projects e req w =
       (json 200 (JObj [(''message'', JStr ''Project added''), (''project'', JObj d)]),
        w\<lparr>Project := Project w @ [d]\<rparr>)"
    by (rule post_projects_ok)
  note f = create_fields[OF d distinct_schemas(1)]
  show "\<exists>d. post_projects e req w =
              (json 200 (JObj [(''message'', JStr ''Project added''), (''project'', JObj d)]),
               w\<lparr>Project := Project w @ [d]\<rparr>)
          \<and> (map_of (body req) ''id'' = None \<longrightarrow> map_of d ''id'' = Some (JNum (Date_now e)))
          \<and> (\<forall>p \<in> set ProjectSchema. \<forall>v. map_of (body req) (pname p) = Some v \<longrightarrow>
                map_of d (pname p) = cast e (ptype p) v)
          \<and> (\<forall>p \<in> set ProjectSchema. pname p \<noteq> ''id'' \<and> map_of (body req) (pname p) = None \<longrightarrow>
                map_of d (pname p) = default_value e p)"
    using r f(1)[OF id_paths(1)] f(2) f(3) by (intro exI[of _ d]) simp
next
  assume "status (fst (post_blogs e req w)) = 200"
  then obtain d where
    d: "new_doc e BlogSchema (spread [(''id'', JNum (Date_now e))] (body req)) = Inr d"
    and r: "post_blogs e req w =
       (json 200 (JObj [(''message'', JStr ''Blog posted''), (''blog'', JObj d)]),
        w\<lparr>Blog := Blog w @ [d]\<rparr>)"
    by (rule post_blogs_ok)
  note f = create_fields[OF d distinct_schemas(2)]
  show "\<exists>d. post_blogs e req w =
              (json 200 (JObj [(''message'', JStr ''Blog posted''), (''blog'', JObj d)]),
               w\<lparr>Blog := Blog w @ [d]\<rparr>)
          \<and> (map_of (body req) ''id'' = None \<longrightarrow> map_of d ''id'' = Some (JNum (Date_now e)))
          \<and> (\<forall>p \<in> set BlogSchema. \<forall>v. map_of (body req) (pname p) = Some v \<longrightarrow>
                map_of d (pname p) = cast e (ptype p) v)
          \<and> (\<forall>p \<in> set BlogSchema. pname p \<noteq> ''id'' \<and> map_of (body req) (pname p) = None \<longrightarrow>
                map_of d (pname p) = default_value e p)"
    using r f(1)[OF id_paths(2)] f(2) f(3) by (intro exI[of _ d]) simp
next
  assume a: "distinct (map pname cs) \<and> status (fst (post_contact cs e req w)) = 200"
  then obtain d where
    d: "new_doc e cs (spread [(''id'', JNum (Date_now e))] (body req)) = Inr d"
    and r: "post_contact cs e req w =
       (json 200 (JObj [(''message'', JStr ''Message sent successfully''), (''contact'', JObj d)]),
        sendDiscordNotification e d (w\<lparr>Contact := Contact w @ [d]\<rparr>))"
    by (auto elim: post_contact_ok)
  from a have dist: "distinct (map pname cs)" by simp
  note f = create_fields[OF d dist]
  show "\<exists>d. fst (post_contact cs e req w) =
              json 200 (JObj [(''message'', JStr ''Message sent successfully''), (''contact'', JObj d)])
          \<and> Contact (snd (post_contact cs e req w)) = Contact w @ [d]
          \<and> (map_of (body req) ''id'' = None \<and> (\<exists>p \<in> set cs. pname p = ''id'' \<and> ptype p = TNumber) \<longrightarrow>
                map_of d ''id'' = Some (JNum (Date_now e)))
          \<and> (\<forall>p \<in> set cs. \<forall>v. map_of (body req) (pname p) = Some v \<longrightarrow>
                map_of d (pname p) = cast e (ptype p) v)
          \<and> (\<forall>p \<in> set cs. pname p \<noteq> ''id'' \<and> map_of (body req) (pname p) = None \<longrightarrow>
                map_of d (pname p) = default_value e p)"
    using r f(1) f(2) f(3)
    by (intro exI[of _ d]) (auto simp: sendDiscordNotification_store)
qed


theorem create_stores_record_witness:
  "status (fst (post_projects sample_env (bare_request [(''title'', JStr ''Site'')]) empty_world)) = 200
   \<and> Project (snd (post_projects sample_env (bare_request [(''title'', JStr ''Site'')]) empty_world))
       = [[(''id'', JNum 1700000000000), (''title'', JStr ''Site''), (''category'', JStr ''web'')]]
   \<and> status (fst (post_blogs sample_env
         (bare_request [(''title'', JStr ''Hello''), (''content'', JStr ''World'')]) empty_world)) = 200
   \<and> Blog (snd (post_blogs sample_env
         (bare_request [(''title'', JStr ''Hello''), (''content'', JStr ''World'')]) empty_world))
       = [[(''id'', JNum 1700000000000), (''title'', JStr ''Hello''), (''content'', JStr ''World''),
           (''tags'', JArr []), (''date'', JDate 1700000000001)]]
   \<and> distinct (map pname sample_ContactSchema)
   \<and> status (fst (post_contact sample_ContactSchema sample_env
         (bare_request [(''name'', JStr ''Ann'')]) empty_world)) = 200
   \<and> Contact (snd (post_contact sample_ContactSchema sample_env
         (bare_request [(''name'', JStr ''Ann'')]) empty_world))
       = [[(''id'', JNum 1700000000000), (''name'', JStr ''Ann''), (''date'', JDate 1700000000001)]]"
  using create_stores_record [of sample_env "bare_request [(''title'', JStr ''Site'')]" empty_world
      sample_ContactSchema]
    create_stores_record [of sample_env
      "bare_request [(''title'', JStr ''Hello''), (''content'', JStr ''World'')]" empty_world
      sample_ContactSchema]
    create_stores_record [of sample_env "bare_request [(''name'', JStr ''Ann'')]" empty_world
      sample_ContactSchema]
  by (simp add: run_defs)

text \<open>
  The claim as first stated fails: a body that carries \<open>id: 5\<close> is stored with id 5, not
  with the clock reading 1700000000000.
\<close>

theorem create_id_overridden:
  "app sample_ContactSchema POST_projects sample_env
       (sample_request ''hunter2'' [] [(''id'', JNum 5), (''title'', JStr ''Site'')]) empty_world
     = (json 200 (JObj [(''message'', JStr ''Project added''),
                        (''project'', JObj [(''id'', JNum 5), (''title'', JStr ''Site''),
                                            (''category'', JStr ''web'')])]),
        empty_world\<lparr>Project := [[(''id'', JNum 5), (''title'', JStr ''Site''),
                                   (''category'', JStr ''web'')]]\<rparr>)
   \<and> Date_now sample_env = 1700000000000
   \<and> map_of [(''id'', JNum 5), (''title'', JStr ''Site''), (''category'', JStr ''web'')] ''id''
       \<noteq> Some (JNum (Date_now sample_env))"
  by (simp add: run_defs)

text \<open>
  C4 (as amended). Two consecutive successful creates of a Project, or of a Blog, whose
  bodies carry no \<open>id\<close> store the two \<open>Date.now()\<close> readings of the two requests as ids:
  the ids differ exactly when the two readings differ.
\<close>

theorem consecutive_creates_ids:
  "(status (fst (post_projects e1 req1 w)) = 200
      \<and> status (fst (post_projects e2 req2 (snd (post_projects e1 req1 w)))) = 200
      \<and> map_of (body req1) ''id'' = None \<and> map_of (body req2) ''id'' = None \<longrightarrow>
      (\<exists>d1 d2. Project (snd (post_projects e2 req2 (snd (post_projects e1 req1 w))))
                 = Project w @ [d1, d2]
             \<and> map_of d1 ''id'' = Some (JNum (Date_now e1))
             \<and> map_of d2 ''id'' = Some (JNum (Date_now e2))
             \<and> (map_of d1 ''id'' \<noteq> map_of d2 ''id'' \<longleftrightarrow> Date_now e1 \<noteq> Date_now e2)))
 \<and> (status (fst (post_blogs e1 req1 w)) = 200
      \<and> status (fst (post_blogs e2 req2 (snd (post_blogs e1 req1 w)))) = 200
      \<and> map_of (body req1) ''id'' = None \<and> map_of (body req2) ''id'' = None \<longrightarrow>
      (\<exists>d1 d2. Blog (snd (post_blogs e2 req2 (snd (post_blogs e1 req1 w))))
                 = Blog w @ [d1, d2]
             \<and> map_of d1 ''id'' = Some (JNum (Date_now e1))
             \<and> map_of d2 ''id'' = Some (JNum (Date_now e2))
             \<and> (map_of d1 ''id'' \<noteq> map_of d2 ''id'' \<longleftrightarrow> Date_now e1 \<noteq> Date_now e2)))"
proof (intro conjI impI)
  assume a: "status (fst (post_projects e1 req1 w)) = 200
      \<and> status (fst (post_projects e2 req2 (snd (post_projects e1 req1 w)))) = 200
      \<and> map_of (body req1) ''id'' = None \<and> map_of (body req2) ''id'' = None"
  from a obtain d1 where
    d1: "new_doc e1 ProjectSchema (spread [(''id'', JNum (Date_now e1))] (body req1)) = Inr d1"
    and r1: "post_projects e1 req1 w =
       (json 200 (JObj [(''message'', JStr ''Project added''), (''project'', JObj d1)]),
        w\<lparr>Project := Project w @ [d1]\<rparr>)"
    by (auto elim: post_projects_ok)
  from a obtain d2 where
    d2: "new_doc e2 ProjectSchema (spread [(''id'', JNum (Date_now e2))] (body req2)) = Inr d2"
    and r2: "post_projects e2 req2 (snd (post_projects e1 req1 w)) =
       (json 200 (JObj [(''message'', JStr ''Project added''), (''project'', JObj d2)]),
        (snd (post_projects e1 req1 w))\<lparr>Project := Project (snd (post_projects e1 req1 w)) @ [d2]\<rparr>)"
    by (auto elim: post_projects_ok)
  have i1: "map_of d1 ''id'' = Some (JNum (Date_now e1))"
    using create_fields(1)[OF d1 distinct_schemas(1) id_paths(1)] a by simp
  have i2: "map_of d2 ''id'' = Some (JNum (Date_now e2))"
    using create_fields(1)[OF d2 distinct_schemas(1) id_paths(1)] a by simp
  show "\<exists>d1 d2. Project (snd (post_projects e2 req2 (snd (post_projects e1 req1 w))))
                 = Project w @ [d1, d2]
             \<and> map_of d1 ''id'' = Some (JNum (Date_now e1))
             \<and> map_of d2 ''id'' = Some (JNum (Date_now e2))
             \<and> (map_of d1 ''id'' \<noteq> map_of d2 ''id'' \<longleftrightarrow> Date_now e1 \<noteq> Date_now e2)"
    using i1 i2 r1 r2 by (intro exI[of _ d1] exI[of _ d2]) simp
next
  assume a: "status (fst (post_blogs e1 req1 w)) = 200
      \<and> status (fst (post_blogs e2 req2 (snd (post_blogs e1 req1 w)))) = 200
      \<and> map_of (body req1) ''id'' = None \<and> map_of (body req2) ''id'' = None"
  from a obtain d1 where
    d1: "new_doc e1 BlogSchema (spread [(''id'', JNum (Date_now e1))] (body req1)) = Inr d1"
    and r1: "post_blogs e1 req1 w =
       (json 200 (JObj [(''message'', JStr ''Blog posted''), (''blog'', JObj d1)]),
        w\<lparr>Blog := Blog w @ [d1]\<rparr>)"
    by (auto elim: post_blogs_ok)
  from a obtain d2 where
    d2: "new_doc e2 BlogSchema (spread [(''id'', JNum (Date_now e2))] (body req2)) = Inr d2"
    and r2: "post_blogs e2 req2 (snd (post_blogs e1 req1 w)) =
       (json 200 (JObj [(''message'', JStr ''Blog posted''), (''blog'', JObj d2)]),
        (snd (post_blogs e1 req1 w))\<lparr>Blog := Blog (snd (post_blogs e1 req1 w)) @ [d2]\<rparr>)"
    by (auto elim: post_blogs_ok)
  have i1: "map_of d1 ''id'' = Some (JNum (Date_now e1))"
    using create_fields(1)[OF d1 distinct_schemas(2) id_paths(2)] a by simp
  have i2: "map_of d2 ''id'' = Some (JNum (Date_now e2))"
    using create_fields(1)[OF d2 distinct_schemas(2) id_paths(2)] a by simp
  show "\<exists>d1 d2. Blog (snd (post_blogs e2 req2 (snd (post_blogs e1 req1 w))))
                 = Blog w @ [d1, d2]
             \<and> map_of d1 ''id'' = Some (JNum (Date_now e1))
             \<and> map_of d2 ''id'' = Some (JNum (Date_now e2))
             \<and> (map_of d1 ''id'' \<noteq> map_of d2 ''id'' \<longleftrightarrow> Date_now e1 \<noteq> Date_now e2)"
    using i1 i2 r1 r2 by (intro exI[of _ d1] exI[of _ d2]) simp
qed

theorem consecutive_creates_ids_witness:
  "status (fst (post_projects sample_env (bare_request [(''title'', JStr ''A'')]) empty_world)) = 200
   \<and> status (fst (post_projects (sample_env\<lparr>Date_now := 1700000000009\<rparr>)
         (bare_request [(''title'', JStr ''B'')])
         (snd (post_projects sample_env (bare_request [(''title'', JStr ''A'')]) empty_world)))) = 200
   \<and> map_of (body (bare_request [(''title'', JStr ''A'')])) ''id'' = None
   \<and> map_of (body (bare_request [(''title'', JStr ''B'')])) ''id'' = None
   \<and> Project (snd (post_projects (sample_env\<lparr>Date_now := 1700000000009\<rparr>)
         (bare_request [(''title'', JStr ''B'')])
         (snd (post_projects sample_env (bare_request [(''title'', JStr ''A'')]) empty_world))))
       = [[(''id'', JNum 1700000000000), (''title'', JStr ''A''), (''category'', JStr ''web'')],
          [(''id'', JNum 1700000000009), (''title'', JStr ''B''), (''category'', JStr ''web'')]]"
  using consecutive_creates_ids [of sample_env "bare_request [(''title'', JStr ''A'')]" empty_world
      "sample_env\<lparr>Date_now := 1700000000009\<rparr>" "bare_request [(''title'', JStr ''B'')]"]
  by (simp add: run_defs)

text \<open>
  The claim as first stated fails: two creates handled within the same millisecond are
  both stored with that millisecond as id.
\<close>

theorem same_millisecond_same_id:
  "app sample_ContactSchema POST_projects sample_env
       (sample_request ''hunter2'' [] [(''title'', JStr ''B'')])
       (snd (app sample_ContactSchema POST_projects sample_env
              (sample_request ''hunter2'' [] [(''title'', JStr ''A'')]) empty_world))
     = (json 200 (JObj [(''message'', JStr ''Project added''),
                        (''project'', JObj [(''id'', JNum 1700000000000), (''title'', JStr ''B''),
                                            (''category'', JStr ''web'')])]),
        empty_world\<lparr>Project :=
          [[(''id'', JNum 1700000000000), (''title'', JStr ''A''), (''category'', JStr ''web'')],
           [(''id'', JNum 1700000000000), (''title'', JStr ''B''), (''category'', JStr ''web'')]]\<rparr>)
   \<and> status (fst (app sample_ContactSchema POST_projects sample_env
              (sample_request ''hunter2'' [] [(''title'', JStr ''A'')]) empty_world)) = 200"
  by (simp add: run_defs)

section \<open>Deleting and updating by id\<close>



lemma world_same [simp]:
  "w\<lparr>Project := Project w\<rparr> = w" "w\<lparr>Blog := Blog w\<rparr> = w"
  by simp_all




section \<open>Listing by date\<close>













section \<open>Updating the settings\<close>


lemma cast_update_outside:
  "cast_update e sch upd = Inr s \<Longrightarrow> k \<notin> pname ` set sch \<Longrightarrow> map_of s k = None"
proof (induction sch arbitrary: s)
  case Nil
  then show ?case by simp
next
  case (Cons p ps)
  then show ?case
    by (auto split: sum.splits option.splits)
qed









section \<open>Contact submission and the notification\<close>

lemma cast_axios_post: "cast (e\<lparr>axios_post := r\<rparr>) T v = cast e T v"
  by (simp add: cast_def)

lemma default_value_axios_post: "default_value (e\<lparr>axios_post := r\<rparr>) p = default_value e p"
  by (simp add: default_value_def split: fdefault.splits)

lemma init_path_axios_post: "init_path (e\<lparr>axios_post := r\<rparr>) src p = init_path e src p"
  unfolding init_path_def cast_axios_post default_value_axios_post by (rule refl)

lemma new_doc_axios_post [simp]: "new_doc (e\<lparr>axios_post := r\<rparr>) sch src = new_doc e sch src"
  by (induction sch) (simp_all add: init_path_axios_post split: sum.splits)

lemma post_contact_created:
  assumes "new_doc e cs (spread [(''id'', JNum (Date_now e))] (body req)) = Inr c"
    and "\<not> store_fault e 0"
  shows "post_contact cs e req w =
     (json 200 (JObj [(''message'', JStr ''Message sent successfully''), (''contact'', JObj c)]),
      sendDiscordNotification e c (w\<lparr>Contact := Contact w @ [c]\<rparr>))"
  using assms by (simp add: post_contact_def create_def)

text \<open>
  C8. When no webhook URL is configured (unset or empty), \<open>sendDiscordNotification\<close> changes
  nothing: nothing is sent and nothing is logged; and a contact submission whose record is
  created returns success with that record, the store holding it.
\<close>

theorem no_webhook_no_dispatch:
  assumes "DISCORD_WEBHOOK_URL e = None \<or> DISCORD_WEBHOOK_URL e = Some []"
  shows "sendDiscordNotification e d w = w
       \<and> (new_doc e cs (spread [(''id'', JNum (Date_now e))] (body req)) = Inr c
            \<and> \<not> store_fault e 0 \<longrightarrow>
          app cs POST_contact e req w =
            (json 200 (JObj [(''message'', JStr ''Message sent successfully''), (''contact'', JObj c)]),
             w\<lparr>Contact := Contact w @ [c]\<rparr>))"
proof -
  have n: "sendDiscordNotification e d' w' = w'" for d' w'
    using assms by (auto simp: sendDiscordNotification_def)
  show ?thesis
    using n by (simp add: post_contact_created)
qed

theorem no_webhook_no_dispatch_witness:
  "(DISCORD_WEBHOOK_URL sample_env = None \<or> DISCORD_WEBHOOK_URL sample_env = Some [])
   \<and> new_doc sample_env sample_ContactSchema
        (spread [(''id'', JNum (Date_now sample_env))]
           (body (bare_request [(''name'', JStr ''Ann''), (''message'', JStr ''Hello'')])))
       = Inr [(''id'', JNum 1700000000000), (''name'', JStr ''Ann''), (''message'', JStr ''Hello''),
              (''date'', JDate 1700000000001)]
   \<and> \<not> store_fault sample_env 0
   \<and> app sample_ContactSchema POST_contact sample_env
        (bare_request [(''name'', JStr ''Ann''), (''message'', JStr ''Hello'')]) empty_world
       = (json 200 (JObj [(''message'', JStr ''Message sent successfully''),
                          (''contact'', JObj [(''id'', JNum 1700000000000), (''name'', JStr ''Ann''),
                                              (''message'', JStr ''Hello''),
                                              (''date'', JDate 1700000000001)])]),
          empty_world\<lparr>Contact := [[(''id'', JNum 1700000000000), (''name'', JStr ''Ann''),
                                    (''message'', JStr ''Hello''), (''date'', JDate 1700000000001)]]\<rparr>)"
  using no_webhook_no_dispatch [where e = sample_env and cs = sample_ContactSchema
      and req = "bare_request [(''name'', JStr ''Ann''), (''message'', JStr ''Hello'')]"
      and w = empty_world]
  by (simp add: run_defs)

text \<open>
  C9. The response to a contact submission, and the Contact collection after it, do not
  depend on what the webhook POST returns; when the POST fails (a network error or a status
  outside 200..299) after the record was created, the failure is logged and the success
  response with the created contact is what the caller gets.
\<close>

theorem webhook_failure_is_swallowed:
  "fst (app cs POST_contact (e\<lparr>axios_post := r\<rparr>) req w) = fst (app cs POST_contact e req w)
   \<and> Contact (snd (app cs POST_contact (e\<lparr>axios_post := r\<rparr>) req w))
       = Contact (snd (app cs POST_contact e req w))
   \<and> (\<not> delivered (axios_post e) \<and> DISCORD_WEBHOOK_URL e = Some url \<and> url \<noteq> []
        \<and> new_doc e cs (spread [(''id'', JNum (Date_now e))] (body req)) = Inr c
        \<and> \<not> store_fault e 0 \<longrightarrow>
      app cs POST_contact e req w =
        (json 200 (JObj [(''message'', JStr ''Message sent successfully''), (''contact'', JObj c)]),
         w\<lparr>Contact := Contact w @ [c],
           outbox := outbox w @ [(url, embed e c)],
           console := console w @ [ConsoleError ''Discord Webhook Error:'']\<rparr>))"
proof (intro conjI impI)
  show "fst (app cs POST_contact (e\<lparr>axios_post := r\<rparr>) req w) = fst (app cs POST_contact e req w)"
    by (simp add: post_contact_def create_def split: sum.splits)
  show "Contact (snd (app cs POST_contact (e\<lparr>axios_post := r\<rparr>) req w))
       = Contact (snd (app cs POST_contact e req w))"
    by (simp add: post_contact_def create_def sendDiscordNotification_store split: sum.splits)
next
  assume a: "\<not> delivered (axios_post e) \<and> DISCORD_WEBHOOK_URL e = Some url \<and> url \<noteq> []
        \<and> new_doc e cs (spread [(''id'', JNum (Date_now e))] (body req)) = Inr c
        \<and> \<not> store_fault e 0"
  then have "app cs POST_contact e req w =
     (json 200 (JObj [(''message'', JStr ''Message sent successfully''), (''contact'', JObj c)]),
      sendDiscordNotification e c (w\<lparr>Contact := Contact w @ [c]\<rparr>))"
    by (simp add: post_contact_created)
  then show "app cs POST_contact e req w =
        (json 200 (JObj [(''message'', JStr ''Message sent successfully''), (''contact'', JObj c)]),
         w\<lparr>Contact := Contact w @ [c],
           outbox := outbox w @ [(url, embed e c)],
           console := console w @ [ConsoleError ''Discord Webhook Error:'']\<rparr>)"
    using a by (simp add: sendDiscordNotification_def Let_def)
qed

theorem webhook_failure_is_swallowed_witness:
  "\<not> delivered (axios_post (sample_env\<lparr>DISCORD_WEBHOOK_URL := Some ''https://hook'', axios_post := HttpStatus 500\<rparr>))
   \<and> new_doc (sample_env\<lparr>DISCORD_WEBHOOK_URL := Some ''https://hook'', axios_post := HttpStatus 500\<rparr>)
        sample_ContactSchema
        (spread [(''id'', JNum 1700000000000)] (body (bare_request [(''name'', JStr ''Ann'')])))
       = Inr [(''id'', JNum 1700000000000), (''name'', JStr ''Ann''), (''date'', JDate 1700000000001)]
   \<and> app sample_ContactSchema POST_contact
        (sample_env\<lparr>DISCORD_WEBHOOK_URL := Some ''https://hook'', axios_post := HttpStatus 500\<rparr>)
        (bare_request [(''name'', JStr ''Ann'')]) empty_world
       = (json 200 (JObj [(''message'', JStr ''Message sent successfully''),
                          (''contact'', JObj [(''id'', JNum 1700000000000), (''name'', JStr ''Ann''),
                                              (''date'', JDate 1700000000001)])]),
          empty_world\<lparr>Contact := [[(''id'', JNum 1700000000000), (''name'', JStr ''Ann''),
                                    (''date'', JDate 1700000000001)]],
            outbox := [(''https://hook'',
               embed (sample_env\<lparr>DISCORD_WEBHOOK_URL := Some ''https://hook'', axios_post := HttpStatus 500\<rparr>)
                 [(''id'', JNum 1700000000000), (''name'', JStr ''Ann''),
                  (''date'', JDate 1700000000001)])],
            console := [ConsoleError ''Discord Webhook Error:'']\<rparr>)"
  using webhook_failure_is_swallowed [where cs = sample_ContactSchema and w = empty_world
      and e = "sample_env\<lparr>DISCORD_WEBHOOK_URL := Some ''https://hook'', axios_post := HttpStatus 500\<rparr>"
      and req = "bare_request [(''name'', JStr ''Ann'')]" and url = "''https://hook''"
      and c = "[(''id'', JNum 1700000000000), (''name'', JStr ''Ann''), (''date'', JDate 1700000000001)]"]
  by (simp add: run_defs)

section \<open>Bootstrap\<close>

lemma new_doc_seed: "new_doc e SettingsSchema seed_settings = Inr seed_settings"
  by (simp add: SettingsSchema_def seed_settings_def init_path_def cast_def default_value_def)

text \<open>
  C10. Run against a store without Settings records, seeding creates exactly one, with the
  name \<open>Vaibhav Kumar\<close>; run against a store that has one, it changes nothing, so a second
  run after a first creates no further record; when a store call is rejected, the failure is
  logged and nothing else changes.
\<close>

theorem seeding:
  "(\<not> store_fault e 0 \<and> \<not> store_fault e 1 \<and> Settings w = [] \<longrightarrow>
      seedDatabase e w =
        w\<lparr>Settings := [seed_settings],
          console := console w @ [ConsoleLog ''Database seeded with default settings'']\<rparr>
      \<and> map_of seed_settings ''name'' = Some (JStr ''Vaibhav Kumar''))
 \<and> (\<not> store_fault e 0 \<and> Settings w \<noteq> [] \<longrightarrow> seedDatabase e w = w)
 \<and> (\<not> store_fault e 0 \<and> \<not> store_fault e 1 \<and> \<not> store_fault e' 0 \<longrightarrow>
      seedDatabase e' (seedDatabase e w) = seedDatabase e w)
 \<and> (store_fault e 0 \<or> (Settings w = [] \<and> store_fault e 1) \<longrightarrow>
      seedDatabase e w = w\<lparr>console := console w @ [ConsoleError ''Seeding Error:'']\<rparr>)"
proof -
  have "map_of seed_settings ''name'' = Some (JStr ''Vaibhav Kumar'')"
    by (simp add: seed_settings_def)
  then show ?thesis
    by (auto simp: seedDatabase_def countDocuments_def create_def new_doc_seed)
qed

theorem seeding_witness:
  "\<not> store_fault sample_env 0 \<and> \<not> store_fault sample_env 1 \<and> Settings empty_world = []
   \<and> Settings (seedDatabase sample_env empty_world) = [seed_settings]
   \<and> Settings (seedDatabase sample_env empty_world) \<noteq> []
   \<and> seedDatabase sample_env (seedDatabase sample_env empty_world) = seedDatabase sample_env empty_world
   \<and> store_fault (sample_env\<lparr>store_fault := (\<lambda>k. True)\<rparr>) 0
   \<and> seedDatabase (sample_env\<lparr>store_fault := (\<lambda>k. True)\<rparr>) empty_world
       = empty_world\<lparr>console := [ConsoleError ''Seeding Error:'']\<rparr>"
  using seeding [of sample_env empty_world sample_env]
    seeding [of sample_env "seedDatabase sample_env empty_world" sample_env]
    seeding [of "sample_env\<lparr>store_fault := (\<lambda>k. True)\<rparr>" empty_world sample_env]
  by (simp add: sample_env_def empty_world_def)

end
